theory Spec2Isabelle
  imports Main "HOL-Library.Sublist"
begin

section \<open>go-scrape: the scrape handler and the two text extractors\<close>

text \<open>
  The repository is a small Go web service. \<open>main.go\<close> holds \<open>scrapeHandler\<close>, the handler
  of \<open>POST /scrape\<close>; package \<open>scraper\<close> holds two functions named \<open>ExtractTextFromURL\<close>:
  one that walks the tree built by \<open>golang.org/x/net/html\<close> by hand (with
  \<open>extractTextFromHTML\<close> and \<open>isIgnorable\<close>) and one, in \<open>scraper/text.go\<close>, that hands the
  page to \<open>go-readability\<close>.

  A Go \<open>string\<close> is a sequence of bytes, here a \<^typ>\<open>string\<close> (a list of 8-bit
  \<^typ>\<open>char\<close>), and \<open>len\<close> is \<^const>\<open>length\<close>. A Go \<open>error\<close> value is observed by the
  program only through its message (\<open>err.Error()\<close>), so it is modelled by that message.
  Calls that leave the repository (the HTTP client, the JSON decoder, the HTML parser,
  \<open>url.Parse\<close>, readability) are fields of an environment record: the functions below are
  defined for every behaviour of these libraries. Every such call is also written to a
  trace, in the order in which the code makes it.
\<close>

subsection \<open>Errors\<close>

datatype error = GoError (Error: string)

definition errors_New :: "string \<Rightarrow> error" where
  "errors_New text = GoError text"

subsection \<open>\<open>strings.TrimSpace\<close>\<close>

text \<open>
  \<open>strings.TrimSpace\<close> is part of Go's standard library. It returns its argument without
  the leading and the trailing white space, as Unicode defines it: the string is read as
  UTF-8, a byte that starts no valid encoding counts as the rune \<open>U+FFFD\<close> of width one,
  and \<open>unicode.IsSpace\<close> holds for \<open>U+0009\<close> to \<open>U+000D\<close>, \<open>U+0020\<close>, \<open>U+0085\<close>, \<open>U+00A0\<close>,
  \<open>U+1680\<close>, \<open>U+2000\<close> to \<open>U+200A\<close>, \<open>U+2028\<close>, \<open>U+2029\<close>, \<open>U+202F\<close>, \<open>U+205F\<close> and
  \<open>U+3000\<close>. The decoder accepts only the shortest encoding of a rune, so a string starts
  (ends) with a white space rune exactly when it starts (ends) with one of the byte
  sequences of \<open>White_Space\<close>, the UTF-8 encodings of these runes.
\<close>

definition White_Space :: "string list" where
  "White_Space =
    [[CHR 0x09], [CHR 0x0A], [CHR 0x0B], [CHR 0x0C], [CHR 0x0D], [CHR 0x20],
     [CHR 0xC2, CHR 0x85], [CHR 0xC2, CHR 0xA0],
     [CHR 0xE1, CHR 0x9A, CHR 0x80],
     [CHR 0xE2, CHR 0x80, CHR 0x80], [CHR 0xE2, CHR 0x80, CHR 0x81],
     [CHR 0xE2, CHR 0x80, CHR 0x82], [CHR 0xE2, CHR 0x80, CHR 0x83],
     [CHR 0xE2, CHR 0x80, CHR 0x84], [CHR 0xE2, CHR 0x80, CHR 0x85],
     [CHR 0xE2, CHR 0x80, CHR 0x86], [CHR 0xE2, CHR 0x80, CHR 0x87],
     [CHR 0xE2, CHR 0x80, CHR 0x88], [CHR 0xE2, CHR 0x80, CHR 0x89],
     [CHR 0xE2, CHR 0x80, CHR 0x8A],
     [CHR 0xE2, CHR 0x80, CHR 0xA8], [CHR 0xE2, CHR 0x80, CHR 0xA9],
     [CHR 0xE2, CHR 0x80, CHR 0xAF],
     [CHR 0xE2, CHR 0x81, CHR 0x9F],
     [CHR 0xE3, CHR 0x80, CHR 0x80]]"

text \<open>The width in bytes of the white space rune a string starts (ends) with; 0 when it
  starts (ends) with none.\<close>

definition leading_space :: "string \<Rightarrow> nat" where
  "leading_space s =
     (case find (\<lambda>w. prefix w s) White_Space of None \<Rightarrow> 0 | Some w \<Rightarrow> length w)"

definition trailing_space :: "string \<Rightarrow> nat" where
  "trailing_space s =
     (case find (\<lambda>w. suffix w s) White_Space of None \<Rightarrow> 0 | Some w \<Rightarrow> length w)"

text \<open>
  \<open>TrimLeft\<close> drops white space runes from the front for as long as there is one;
  \<open>TrimRight\<close> does the same from the back. \<open>TrimRight_rev\<close> is its loop, on the reversed
  string, so that the last byte is at the head of the list.
\<close>

fun TrimLeft :: "string \<Rightarrow> string" where
  "TrimLeft [] = []"
| "TrimLeft (c # s) =
     (if leading_space (c # s) = 0 then c # s
      else TrimLeft (drop (leading_space (c # s) - 1) s))"

fun TrimRight_rev :: "string \<Rightarrow> string" where
  "TrimRight_rev [] = []"
| "TrimRight_rev (c # r) =
     (if trailing_space (rev (c # r)) = 0 then c # r
      else TrimRight_rev (drop (trailing_space (rev (c # r)) - 1) r))"

definition TrimRight :: "string \<Rightarrow> string" where
  "TrimRight s = rev (TrimRight_rev (rev s))"

definition TrimSpace :: "string \<Rightarrow> string" where
  "TrimSpace s = TrimRight (TrimLeft s)"

subsection \<open>The parsed document\<close>

text \<open>
  \<open>html.Node\<close> of \<open>golang.org/x/net/html\<close>: a node has a type, its data (the text of a
  text node, the tag name of an element) and its children, which the Go code reaches through
  \<open>FirstChild\<close> and \<open>NextSibling\<close>. \<open>Parent\<close> is the node one level up, \<open>nil\<close> for the root;
  the traversal below carries it as an argument.
\<close>

datatype NodeType = ErrorNode | TextNode | DocumentNode | ElementNode | CommentNode
  | DoctypeNode | RawNode

datatype node = Node (Type: NodeType) (Data: string) (Children: "node list")

fun isIgnorable :: "node option \<Rightarrow> bool" where
  "isIgnorable None = False"
| "isIgnorable (Some n) =
     (if Type n \<noteq> ElementNode then False
      else if Data n = ''script'' \<or> Data n = ''style'' \<or> Data n = ''head''
              \<or> Data n = ''noscript'' then True
      else False)"

text \<open>
  \<open>traverse\<close> is the closure of \<open>extractTextFromHTML\<close>; the \<open>strings.Builder\<close> it writes to
  is passed in and returned. \<open>traverse_siblings\<close> is its loop over the children.
\<close>

fun traverse :: "node option \<Rightarrow> node \<Rightarrow> string \<Rightarrow> string"
  and traverse_siblings :: "node option \<Rightarrow> node list \<Rightarrow> string \<Rightarrow> string" where
  "traverse parent (Node ty d cs) b =
     (let n = Node ty d cs;
          b1 = (if Type n = TextNode \<and> \<not> isIgnorable parent
                then (let text = TrimSpace (Data n)
                      in if length text > 0 then b @ (text @ '' '') else b)
                else b)
      in traverse_siblings (Some n) cs b1)"
| "traverse_siblings parent [] b = b"
| "traverse_siblings parent (c # cs) b = traverse_siblings parent cs (traverse parent c b)"

subsection \<open>The libraries the code calls\<close>

text \<open>
  \<open>http.Response\<close> (its status code and its body, read to the end), \<open>readability.Article\<close>
  (the code reads \<open>TextContent\<close> only), and the two JSON structs of \<open>main.go\<close>.
\<close>

record Response =
  StatusCode :: int
  Body :: string

record Article =
  TextContent :: string

record scrapeRequest =
  URL :: string

record scrapeResponse =
  Content :: string

text \<open>
  The environment: what each library call returns, \<open>Inl\<close> for a non-nil \<open>err\<close>.
  \<open>client_Get t u\<close> is \<open>Get(u)\<close> on an \<open>http.Client\<close> whose \<open>Timeout\<close> is \<open>t\<close> seconds, 0
  for none, as in Go; \<open>'u\<close> is the type of a parsed URL (\<open>*url.URL\<close>).
\<close>

record 'u env =
  json_Decode :: "string \<Rightarrow> error + scrapeRequest"
  client_Get :: "nat \<Rightarrow> string \<Rightarrow> error + Response"
  html_Parse :: "string \<Rightarrow> error + node"
  url_Parse :: "string \<Rightarrow> error + 'u"
  readability_FromReader :: "string \<Rightarrow> 'u \<Rightarrow> error + Article"

text \<open>\<open>http.Get\<close> is \<open>Get\<close> on \<open>http.DefaultClient\<close>, which has no timeout.\<close>

definition http_Get :: "'u env \<Rightarrow> string \<Rightarrow> error + Response" where
  "http_Get env u = client_Get env 0 u"

text \<open>
  The trace: one event for each call out of the repository, with its argument, one for the
  handler's call of \<open>scraper.ExtractTextFromURL\<close>, and one for the deferred
  \<open>resp.Body.Close()\<close>. The code makes no other call.
\<close>

datatype event =
    Decode string
  | Extract string
  | Get nat string
  | HtmlParse string
  | UrlParse string
  | FromReader string
  | Close

subsection \<open>Package \<open>scraper\<close>: the traversal by hand\<close>

definition extractTextFromHTML :: "'u env \<Rightarrow> string \<Rightarrow> (string \<times> error option) \<times> event list" where
  "extractTextFromHTML env r =
     (case html_Parse env r of
        Inl err \<Rightarrow> (('''', Some err), [HtmlParse r])
      | Inr doc \<Rightarrow> ((TrimSpace (traverse None doc []), None), [HtmlParse r]))"

definition ExtractTextFromURL_dom :: "'u env \<Rightarrow> string \<Rightarrow> (string \<times> error option) \<times> event list" where
  "ExtractTextFromURL_dom env u =
     (case http_Get env u of
        Inl err \<Rightarrow> (('''', Some err), [Get 0 u])
      | Inr resp \<Rightarrow>
          if StatusCode resp \<noteq> 200
          then (('''', Some (errors_New ''failed to fetch page'')), [Get 0 u, Close])
          else (case extractTextFromHTML env (Body resp) of
                  (res, tr) \<Rightarrow> (res, [Get 0 u] @ tr @ [Close])))"

subsection \<open>Package \<open>scraper\<close>, \<open>text.go\<close>: readability\<close>

definition ExtractTextFromURL_readability ::
  "'u env \<Rightarrow> string \<Rightarrow> (string \<times> error option) \<times> event list" where
  "ExtractTextFromURL_readability env u =
     (case client_Get env 10 u of
        Inl err \<Rightarrow> (('''', Some err), [Get 10 u])
      | Inr resp \<Rightarrow>
          if StatusCode resp \<noteq> 200
          then (('''', Some (errors_New ''failed to fetch the page'')), [Get 10 u, Close])
          else (case url_Parse env u of
                  Inl err \<Rightarrow>
                    (('''', Some (errors_New ''failed to parse URL'')),
                     [Get 10 u, UrlParse u, Close])
                | Inr parsedURL \<Rightarrow>
                    (case readability_FromReader env (Body resp) parsedURL of
                       Inl err \<Rightarrow>
                         (('''', Some err),
                          [Get 10 u, UrlParse u, FromReader (Body resp), Close])
                     | Inr article \<Rightarrow>
                         if length (TextContent article) < 100
                         then (('''', Some (errors_New ''extract failed: content too short'')),
                               [Get 10 u, UrlParse u, FromReader (Body resp), Close])
                         else ((TextContent article, None),
                               [Get 10 u, UrlParse u, FromReader (Body resp), Close]))))"

subsection \<open>\<open>main.go\<close>: the handler\<close>

text \<open>
  What the handler leaves in its \<open>http.ResponseWriter\<close>: the headers it set, the status
  code, and what it wrote to the body, either a line of plain text (\<open>fmt.Fprintln\<close>, in
  \<open>http.Error\<close>) or the JSON encoding of a \<open>scrapeResponse\<close>. The server hands the handler a
  writer with no header, no status and an empty body.
\<close>

datatype body = Fprintln string | json_Encode scrapeResponse

record ResponseWriter =
  Header :: "(string \<times> string) list"
  Status :: "int option"
  Written :: "body list"

definition new_ResponseWriter :: ResponseWriter where
  "new_ResponseWriter = \<lparr>Header = [], Status = None, Written = []\<rparr>"

fun Header_Set :: "string \<Rightarrow> string \<Rightarrow> (string \<times> string) list \<Rightarrow> (string \<times> string) list" where
  "Header_Set k v [] = [(k, v)]"
| "Header_Set k v ((k', v') # h) =
     (if k' = k then (k, v) # h else (k', v') # Header_Set k v h)"

definition StatusMethodNotAllowed :: int where "StatusMethodNotAllowed = 405"
definition StatusBadRequest :: int where "StatusBadRequest = 400"
definition StatusInternalServerError :: int where "StatusInternalServerError = 500"
definition StatusOK :: int where "StatusOK = 200"

text \<open>\<open>http.Error\<close>: a plain-text reply with the given status code.\<close>

definition http_Error :: "ResponseWriter \<Rightarrow> string \<Rightarrow> int \<Rightarrow> ResponseWriter" where
  "http_Error w msg code =
     w\<lparr>Header := Header_Set ''X-Content-Type-Options'' ''nosniff''
                  (Header_Set ''Content-Type'' ''text/plain; charset=utf-8'' (Header w)),
       Status := Some code,
       Written := Written w @ [Fprintln msg]\<rparr>"

text \<open>Writing the body without a status code sends 200, as \<open>net/http\<close> does.\<close>

definition Encode :: "ResponseWriter \<Rightarrow> scrapeResponse \<Rightarrow> ResponseWriter" where
  "Encode w v =
     w\<lparr>Status := (case Status w of None \<Rightarrow> Some StatusOK | Some c \<Rightarrow> Some c),
       Written := Written w @ [json_Encode v]\<rparr>"

record Request =
  Method :: string
  RequestBody :: string

text \<open>
  The handler calls \<open>scraper.ExtractTextFromURL\<close>; the package declares that name twice, so
  the extractor is an argument here, to be either of the two functions above.
\<close>

definition scrapeHandler ::
  "'u env \<Rightarrow> (string \<Rightarrow> (string \<times> error option) \<times> event list) \<Rightarrow> Request
     \<Rightarrow> ResponseWriter \<times> event list" where
  "scrapeHandler env extract r =
     (let w = new_ResponseWriter in
      if Method r \<noteq> ''POST''
      then (http_Error w ''Method not allowed'' StatusMethodNotAllowed, [])
      else (case json_Decode env (RequestBody r) of
              Inl err \<Rightarrow>
                (http_Error w ''Invalid JSON'' StatusBadRequest, [Decode (RequestBody r)])
            | Inr req \<Rightarrow>
                (case extract (URL req) of
                   ((content, Some err), tr) \<Rightarrow>
                     (http_Error w (''Scraping failed: '' @ Error err) StatusInternalServerError,
                      [Decode (RequestBody r), Extract (URL req)] @ tr)
                 | ((content, None), tr) \<Rightarrow>
                     (Encode (w\<lparr>Header := Header_Set ''Content-Type'' ''application/json''
                                             (Header w)\<rparr>)
                        \<lparr>Content = content\<rparr>,
                      [Decode (RequestBody r), Extract (URL req)] @ tr))))"

subsection \<open>Describing the extracted text\<close>

text \<open>
  The definitions of this subsection are not code of the repository; the theorems use them
  to say what the traversal computes. \<open>nodes parent n\<close> lists the nodes of the tree under
  \<open>n\<close> in document order, each with its parent. \<open>visible_texts doc\<close> lists the trimmed data
  of the text nodes whose parent \<open>isIgnorable\<close> does not reject, without the empty ones.
  \<open>Join\<close> is \<open>strings.Join\<close> with a single space as the separator.
\<close>

fun nodes :: "node option \<Rightarrow> node \<Rightarrow> (node option \<times> node) list"
  and nodes_list :: "node option \<Rightarrow> node list \<Rightarrow> (node option \<times> node) list" where
  "nodes parent (Node ty d cs) =
     (parent, Node ty d cs) # nodes_list (Some (Node ty d cs)) cs"
| "nodes_list parent [] = []"
| "nodes_list parent (c # cs) = nodes parent c @ nodes_list parent cs"

definition texts_of :: "(node option \<times> node) list \<Rightarrow> string list" where
  "texts_of pns =
     filter (\<lambda>t. t \<noteq> [])
       (map (\<lambda>(p, n). TrimSpace (Data n))
          (filter (\<lambda>(p, n). Type n = TextNode \<and> \<not> isIgnorable p) pns))"

definition visible_texts :: "node \<Rightarrow> string list" where
  "visible_texts doc = texts_of (nodes None doc)"

fun Join :: "string list \<Rightarrow> string" where
  "Join [] = []"
| "Join [t] = t"
| "Join (t # ts) = t @ '' '' @ Join ts"

subsection \<open>Example pages and environments\<close>

text \<open>An environment in which every library call returns the value given for it.\<close>

definition env_of ::
  "error + scrapeRequest \<Rightarrow> error + Response \<Rightarrow> node \<Rightarrow> Article \<Rightarrow> string env" where
  "env_of decoded fetched doc article =
     \<lparr>json_Decode = (\<lambda>b. decoded),
      client_Get = (\<lambda>t u. fetched),
      html_Parse = (\<lambda>r. Inr doc),
      url_Parse = (\<lambda>u. Inr u),
      readability_FromReader = (\<lambda>b u. Inr article)\<rparr>"

text \<open>The tree \<open>html.Parse\<close> builds for
  \<^verbatim>\<open><html><head><title>T</title></head><body><p>B</p></body></html>\<close>.\<close>

definition doc_title :: node where
  "doc_title =
     Node DocumentNode '''' [Node ElementNode ''html''
       [Node ElementNode ''head'' [Node ElementNode ''title'' [Node TextNode ''T'' []]],
        Node ElementNode ''body'' [Node ElementNode ''p'' [Node TextNode ''B'' []]]]]"

text \<open>The tree for \<^verbatim>\<open><html><head></head><body><p>a  b</p></body></html>\<close>, with two
  spaces between \<open>a\<close> and \<open>b\<close>.\<close>

definition doc_gap :: node where
  "doc_gap =
     Node DocumentNode '''' [Node ElementNode ''html''
       [Node ElementNode ''head'' [],
        Node ElementNode ''body'' [Node ElementNode ''p'' [Node TextNode ''a  b'' []]]]]"

text \<open>A document node with a text node as its child: a tree in which the parent of a text
  node is no element.\<close>

definition doc_bare :: node where
  "doc_bare = Node DocumentNode '''' [Node TextNode '' hello '' []]"

definition page :: Response where
  "page = \<lparr>StatusCode = 200, Body = ''page''\<rparr>"

definition short_article :: Article where
  "short_article = \<lparr>TextContent = ''Loading...''\<rparr>"

definition post :: Request where
  "post = \<lparr>Method = ''POST'', RequestBody = ''body''\<rparr>"

definition example_request :: scrapeRequest where
  "example_request = \<lparr>URL = ''http://example.com''\<rparr>"

text \<open>Environments in which the page is fetched with status 200 and parses to one of the
  trees above; readability, where it is used, finds ten characters of text.\<close>

definition env_title :: "string env" where
  "env_title = env_of (Inr example_request) (Inr page) doc_title short_article"

definition env_gap :: "string env" where
  "env_gap = env_of (Inr example_request) (Inr page) doc_gap short_article"

definition env_bare :: "string env" where
  "env_bare = env_of (Inr example_request) (Inr page) doc_bare short_article"

text \<open>An environment in which the server answers with the given status code.\<close>

definition env_status :: "int \<Rightarrow> string env" where
  "env_status code =
     env_of (Inr example_request) (Inr \<lparr>StatusCode = code, Body = ''gone''\<rparr>) doc_bare
       short_article"

text \<open>An environment in which the request asks for \<open>ftp://example.com\<close> and the HTTP client
  refuses the scheme, as Go's does.\<close>

definition env_ftp :: "string env" where
  "env_ftp =
     env_of (Inr \<lparr>URL = ''ftp://example.com''\<rparr>)
       (Inl (GoError ''unsupported protocol scheme'')) doc_bare short_article"

text \<open>An environment in which the request body is not JSON.\<close>

definition env_bad_json :: "string env" where
  "env_bad_json =
     env_of (Inl (GoError ''invalid character'')) (Inr page) doc_bare short_article"

section \<open>Lemmas\<close>

subsection \<open>White space and trimming\<close>

lemma find_SomeD: "find P xs = Some x \<Longrightarrow> x \<in> set xs \<and> P x"
  by (induction xs) (auto split: if_splits)

lemma White_Space_nonempty: "w \<in> set White_Space \<Longrightarrow> w \<noteq> []"
  by (auto simp: White_Space_def)

lemma White_Space_blank: "w \<in> set White_Space \<Longrightarrow> CHR 0x20 \<in> set w \<Longrightarrow> w = '' ''"
  by (auto simp: White_Space_def)

lemma blank_White_Space: "'' '' \<in> set White_Space"
  by (simp add: White_Space_def)

lemma leading_space_0_iff: "leading_space s = 0 \<longleftrightarrow> (\<forall>w\<in>set White_Space. \<not> prefix w s)"
proof (cases "find (\<lambda>w. prefix w s) White_Space")
  case None
  then have "leading_space s = 0" by (simp add: leading_space_def)
  moreover from None have "\<forall>w\<in>set White_Space. \<not> prefix w s"
    by (auto simp: find_None_iff)
  ultimately show ?thesis by simp
next
  case (Some w)
  then have "w \<in> set White_Space" "prefix w s"
    by (auto dest: find_SomeD)
  with Some show ?thesis
    using White_Space_nonempty by (auto simp: leading_space_def)
qed

lemma trailing_space_0_iff: "trailing_space s = 0 \<longleftrightarrow> (\<forall>w\<in>set White_Space. \<not> suffix w s)"
proof (cases "find (\<lambda>w. suffix w s) White_Space")
  case None
  then have "trailing_space s = 0" by (simp add: trailing_space_def)
  moreover from None have "\<forall>w\<in>set White_Space. \<not> suffix w s"
    by (auto simp: find_None_iff)
  ultimately show ?thesis by simp
next
  case (Some w)
  then have "w \<in> set White_Space" "suffix w s"
    by (auto dest: find_SomeD)
  with Some show ?thesis
    using White_Space_nonempty by (auto simp: trailing_space_def)
qed

lemma leading_space_Nil: "leading_space [] = 0"
  using White_Space_nonempty by (auto simp: leading_space_0_iff)

lemma trailing_space_Nil: "trailing_space [] = 0"
  using White_Space_nonempty by (auto simp: trailing_space_0_iff)

lemma leading_space_TrimLeft: "leading_space (TrimLeft s) = 0"
  by (induction s rule: TrimLeft.induct) (simp_all add: leading_space_Nil)

lemma TrimLeft_id: "leading_space s = 0 \<Longrightarrow> TrimLeft s = s"
  by (cases s) simp_all

lemma suffix_TrimLeft: "suffix (TrimLeft s) s"
proof (induction s rule: TrimLeft.induct)
  case 1
  show ?case by simp
next
  case (2 c s)
  show ?case
  proof (cases "leading_space (c # s) = 0")
    case True
    then show ?thesis by simp
  next
    case False
    with 2 have "suffix (TrimLeft (c # s)) (drop (leading_space (c # s) - 1) s)"
      by simp
    then have "suffix (TrimLeft (c # s)) s"
      using suffix_drop suffix_order.trans by blast
    then show ?thesis by (rule suffix_ConsI)
  qed
qed

lemma trailing_TrimRight_rev: "trailing_space (rev (TrimRight_rev r)) = 0"
  by (induction r rule: TrimRight_rev.induct) (simp_all add: trailing_space_Nil)

lemma TrimRight_rev_id: "trailing_space (rev r) = 0 \<Longrightarrow> TrimRight_rev r = r"
  by (cases r) simp_all

lemma suffix_TrimRight_rev: "suffix (TrimRight_rev r) r"
proof (induction r rule: TrimRight_rev.induct)
  case 1
  show ?case by simp
next
  case (2 c r)
  show ?case
  proof (cases "trailing_space (rev (c # r)) = 0")
    case True
    then show ?thesis by simp
  next
    case False
    with 2 have "suffix (TrimRight_rev (c # r)) (drop (trailing_space (rev (c # r)) - 1) r)"
      by simp
    then have "suffix (TrimRight_rev (c # r)) r"
      using suffix_drop suffix_order.trans by blast
    then show ?thesis by (rule suffix_ConsI)
  qed
qed

lemma trailing_space_TrimRight: "trailing_space (TrimRight s) = 0"
  by (simp add: TrimRight_def trailing_TrimRight_rev)

lemma TrimRight_id: "trailing_space s = 0 \<Longrightarrow> TrimRight s = s"
  by (simp add: TrimRight_def TrimRight_rev_id)

lemma prefix_TrimRight: "prefix (TrimRight s) s"
  using suffix_TrimRight_rev [of "rev s"] by (simp add: TrimRight_def suffix_to_prefix)

lemma leading_space_TrimRight: "leading_space s = 0 \<Longrightarrow> leading_space (TrimRight s) = 0"
  using prefix_TrimRight [of s] prefix_order.trans by (fastforce simp: leading_space_0_iff)

lemma leading_space_TrimSpace: "leading_space (TrimSpace s) = 0"
  by (simp add: TrimSpace_def leading_space_TrimRight leading_space_TrimLeft)

lemma trailing_space_TrimSpace: "trailing_space (TrimSpace s) = 0"
  by (simp add: TrimSpace_def trailing_space_TrimRight)


lemma texts_of_append: "texts_of (xs @ ys) = texts_of xs @ texts_of ys"
  by (simp add: texts_of_def)

lemma texts_of_Nil: "texts_of [] = []"
  by (simp add: texts_of_def)

lemma texts_of_Cons:
  "texts_of ((p, n) # pns) =
     (if Type n = TextNode \<and> \<not> isIgnorable p \<and> TrimSpace (Data n) \<noteq> []
      then TrimSpace (Data n) # texts_of pns else texts_of pns)"
  by (simp add: texts_of_def)

lemma traverse_writes:
  "traverse p n b = b @ concat (map (\<lambda>t. t @ '' '') (texts_of (nodes p n)))"
  "traverse_siblings p cs b = b @ concat (map (\<lambda>t. t @ '' '') (texts_of (nodes_list p cs)))"
proof (induction p n b and p cs b rule: traverse_traverse_siblings.induct)
  case (1 parent ty d cs b)
  show ?case
    by (simp add: "1.IH" texts_of_Cons Let_def)
next
  case (2 parent b)
  show ?case by (simp add: texts_of_Nil)
next
  case (3 parent c cs b)
  have "traverse_siblings parent (c # cs) b =
          traverse parent c b @ concat (map (\<lambda>t. t @ '' '') (texts_of (nodes_list parent cs)))"
    by (simp add: "3.IH"(2))
  then show ?case
    by (simp add: "3.IH"(1) texts_of_append)
qed

lemma texts_of_trimmed:
  "t \<in> set (texts_of pns) \<Longrightarrow> t \<noteq> [] \<and> leading_space t = 0 \<and> trailing_space t = 0"
  by (auto simp: texts_of_def leading_space_TrimSpace trailing_space_TrimSpace)

lemma leading_space_before_blank:
  assumes "t \<noteq> []" "leading_space t = 0"
  shows "leading_space (t @ '' '' @ r) = 0"
proof -
  have "\<not> prefix w (t @ '' '' @ r)" if w: "w \<in> set White_Space" for w
  proof
    assume "prefix w (t @ '' '' @ r)"
    then have "prefix w t \<or> (\<exists>us. w = t @ us \<and> prefix us ('' '' @ r))"
      by (simp only: prefix_append)
    then consider "prefix w t" | us where "w = t @ us" "prefix us ('' '' @ r)" "us \<noteq> []"
      by (cases "prefix w t") auto
    then show False
    proof cases
      case 1
      with assms w show False by (simp add: leading_space_0_iff)
    next
      case 2
      then have "CHR 0x20 \<in> set us" by (cases us) auto
      with 2 have "CHR 0x20 \<in> set w" by simp
      with w have "w = '' ''" by (rule White_Space_blank)
      with 2 assms show False by (cases t) auto
    qed
  qed
  then show ?thesis by (simp add: leading_space_0_iff)
qed

lemma trailing_space_after_blank:
  assumes "t \<noteq> []" "trailing_space t = 0"
  shows "trailing_space (r @ '' '' @ t) = 0"
proof -
  have "\<not> suffix w (r @ '' '' @ t)" if w: "w \<in> set White_Space" for w
  proof
    assume "suffix w (r @ '' '' @ t)"
    then have "suffix w ((r @ '' '') @ t)" by simp
    then consider "suffix w t" | us where "w = us @ t" "suffix us (r @ '' '')" "us \<noteq> []"
      unfolding suffix_append by (cases "suffix w t") auto
    then show False
    proof cases
      case 1
      with assms w show False by (simp add: trailing_space_0_iff)
    next
      case 2
      then obtain zs where "r @ '' '' = zs @ us" by (auto simp: suffix_def)
      with 2 have "last us = CHR 0x20" by (metis last_appendR last_snoc)
      with 2 have "CHR 0x20 \<in> set us" by (metis last_in_set)
      with 2 have "CHR 0x20 \<in> set w" by simp
      with w have "w = '' ''" by (rule White_Space_blank)
      with 2 assms show False by (cases us) auto
    qed
  qed
  then show ?thesis by (simp add: trailing_space_0_iff)
qed

lemma trailing_space_blank: "trailing_space (x @ '' '') = 1"
proof (cases "find (\<lambda>w. suffix w (x @ '' '')) White_Space")
  case None
  then have "\<not> suffix '' '' (x @ '' '')"
    using blank_White_Space by (auto simp: find_None_iff)
  then show ?thesis by (simp add: suffix_def)
next
  case (Some w)
  then have w: "w \<in> set White_Space" "suffix w (x @ '' '')"
    by (auto dest: find_SomeD)
  then have "w \<noteq> []" by (simp add: White_Space_nonempty)
  moreover from w obtain zs where "x @ '' '' = zs @ w" by (auto simp: suffix_def)
  ultimately have "last w = CHR 0x20" by (metis last_appendR last_snoc)
  with \<open>w \<noteq> []\<close> have "CHR 0x20 \<in> set w" by (metis last_in_set)
  with w have "w = '' ''" by (simp add: White_Space_blank)
  with Some show ?thesis by (simp add: trailing_space_def)
qed

lemma TrimRight_blank: "trailing_space x = 0 \<Longrightarrow> TrimRight (x @ '' '') = x"
  using trailing_space_blank [of x] by (simp add: TrimRight_def TrimRight_rev_id)

lemma concat_blank_Join:
  "ts \<noteq> [] \<Longrightarrow> concat (map (\<lambda>t. t @ '' '') ts) = Join ts @ '' ''"
  by (induction ts rule: Join.induct) simp_all

lemma Join_nonempty: "ts \<noteq> [] \<Longrightarrow> \<forall>t\<in>set ts. t \<noteq> [] \<Longrightarrow> Join ts \<noteq> []"
  by (induction ts rule: Join.induct) simp_all

lemma Join_Cons: "ts \<noteq> [] \<Longrightarrow> Join (t # ts) = t @ '' '' @ Join ts"
  by (cases ts) simp_all

lemma leading_space_Join_blank:
  assumes "ts \<noteq> []" "\<forall>t\<in>set ts. t \<noteq> [] \<and> leading_space t = 0"
  shows "leading_space (Join ts @ '' '') = 0"
proof (cases ts)
  case Nil
  with assms show ?thesis by simp
next
  case (Cons t ts')
  with assms have t: "t \<noteq> []" "leading_space t = 0" by simp_all
  show ?thesis
  proof (cases "ts' = []")
    case True
    with Cons leading_space_before_blank [OF t, of "[]"] show ?thesis by simp
  next
    case False
    with Cons leading_space_before_blank [OF t, of "Join ts' @ '' ''"] show ?thesis
      by (simp add: Join_Cons)
  qed
qed

lemma trailing_space_Join:
  "ts \<noteq> [] \<Longrightarrow> \<forall>t\<in>set ts. t \<noteq> [] \<and> trailing_space t = 0 \<Longrightarrow> trailing_space (Join ts) = 0"
proof (induction ts rule: Join.induct)
  case 1
  then show ?case by simp
next
  case (2 t)
  then show ?case by simp
next
  case (3 t v va)
  then have "trailing_space (Join (v # va)) = 0" "Join (v # va) \<noteq> []"
    by (simp_all add: Join_nonempty)
  then have "trailing_space (t @ '' '' @ Join (v # va)) = 0"
    by (rule trailing_space_after_blank [rotated])
  then show ?case by simp
qed

lemma TrimSpace_concat_blank:
  assumes "\<forall>t\<in>set ts. t \<noteq> [] \<and> leading_space t = 0 \<and> trailing_space t = 0"
  shows "TrimSpace (concat (map (\<lambda>t. t @ '' '') ts)) = Join ts"
proof (cases "ts = []")
  case True
  then show ?thesis by (simp add: TrimSpace_def TrimRight_def)
next
  case False
  with assms have "leading_space (Join ts @ '' '') = 0" "trailing_space (Join ts) = 0"
    by (simp_all add: leading_space_Join_blank trailing_space_Join)
  with False show ?thesis
    by (simp add: TrimSpace_def concat_blank_Join TrimLeft_id TrimRight_blank)
qed


lemma extract_Join: "TrimSpace (traverse None doc []) = Join (visible_texts doc)"
  by (simp add: traverse_writes visible_texts_def TrimSpace_concat_blank texts_of_trimmed)

subsection \<open>White space runes and the text nodes that contribute\<close>

lemma White_Space_length:
  "w \<in> set White_Space \<Longrightarrow>
     length w = (if hd w = CHR 0xC2 then 2
                 else if hd w \<in> {CHR 0xE1, CHR 0xE2, CHR 0xE3} then 3 else 1)"
  by (auto simp: White_Space_def)

lemma White_Space_prefix_free:
  assumes "w \<in> set White_Space" "w' \<in> set White_Space" "prefix w w'"
  shows "w = w'"
proof -
  from assms obtain zs where zs: "w' = w @ zs" by (auto simp: prefix_def)
  moreover from assms have "w \<noteq> []" by (simp add: White_Space_nonempty)
  ultimately have "hd w' = hd w" by simp
  with assms have "length w' = length w" by (simp add: White_Space_length)
  with zs show ?thesis by simp
qed

lemma leading_space_White_Space:
  assumes "w \<in> set White_Space"
  shows "leading_space (w @ r) = length w"
proof (cases "find (\<lambda>v. prefix v (w @ r)) White_Space")
  case None
  with assms have "\<not> prefix w (w @ r)" by (auto simp: find_None_iff)
  then show ?thesis by simp
next
  case (Some v)
  then have v: "v \<in> set White_Space" "prefix v (w @ r)" by (auto dest: find_SomeD)
  then have "prefix v w \<or> prefix w v"
    using prefix_same_cases [of v "w @ r" w] by auto
  with v assms have "v = w" by (auto dest: White_Space_prefix_free)
  with Some show ?thesis by (simp add: leading_space_def)
qed

lemma TrimLeft_White_Space: "set ws \<subseteq> set White_Space \<Longrightarrow> TrimLeft (concat ws) = []"
proof (induction ws)
  case Nil
  show ?case by simp
next
  case (Cons w ws)
  then have w: "w \<in> set White_Space" by simp
  then have "w \<noteq> []" by (rule White_Space_nonempty)
  then obtain c w0 where cw: "w = c # w0" by (cases w) auto
  from w have "leading_space (w @ concat ws) = length w" by (rule leading_space_White_Space)
  with cw have "TrimLeft (concat (w # ws)) = TrimLeft (concat ws)" by simp
  with Cons show ?case by simp
qed

lemma TrimSpace_White_Space: "set ws \<subseteq> set White_Space \<Longrightarrow> TrimSpace (concat ws) = []"
  by (simp add: TrimSpace_def TrimLeft_White_Space TrimRight_def)


subsection \<open>Unfolding the definitions\<close>

lemmas env_defs = env_of_def env_title_def env_gap_def env_bare_def env_status_def env_ftp_def
  env_bad_json_def example_request_def page_def short_article_def post_def

lemmas http_defs = http_Error_def Encode_def new_ResponseWriter_def http_Get_def errors_New_def
  StatusOK_def StatusBadRequest_def StatusMethodNotAllowed_def StatusInternalServerError_def

section \<open>The claims\<close>

subsection \<open>Short content\<close>

text \<open>
  The fallback of the specification on the code. In \<open>env_title\<close> the page is fetched with
  status 200 and readability finds ten characters of text. \<open>ExtractTextFromURL\<close> of
  \<open>text.go\<close> then returns the error \<open>extract failed: content too short\<close>, and the GET, the
  URL parse, the call of readability and the closing of the body are all the calls it made:
  the failure is terminal and nothing was rendered.
\<close>

theorem short_content_fails_without_fallback:
  "client_Get env_title 10 ''http://example.com'' = Inr page \<and> StatusCode page = 200
   \<and> readability_FromReader env_title (Body page) ''http://example.com'' = Inr short_article
   \<and> length (TextContent short_article) = 10
   \<and> ExtractTextFromURL_readability env_title ''http://example.com'' =
       (('''', Some (GoError ''extract failed: content too short'')),
        [Get 10 ''http://example.com'', UrlParse ''http://example.com'', FromReader ''page'',
         Close])"
  by (simp add: ExtractTextFromURL_readability_def env_defs http_defs)

text \<open>
  Claim C1, as amended. For every extraction whose fetch succeeds (status 200, URL parsed,
  readability without error) but yields text shorter than 100 bytes, \<open>ExtractTextFromURL\<close>
  of \<open>text.go\<close> returns the terminal error \<open>extract failed: content too short\<close> with empty
  content, after exactly the calls of the primary path: the code has no headless rendering
  to fall back to.
\<close>

theorem short_content_is_terminal:
  assumes "client_Get env 10 u = Inr resp" and "StatusCode resp = 200"
    and "url_Parse env u = Inr parsedURL"
    and "readability_FromReader env (Body resp) parsedURL = Inr article"
    and "length (TextContent article) < 100"
  shows "ExtractTextFromURL_readability env u =
           (('''', Some (errors_New ''extract failed: content too short'')),
            [Get 10 u, UrlParse u, FromReader (Body resp), Close])"
  using assms by (simp add: ExtractTextFromURL_readability_def)

text \<open>The hypotheses of the theorem hold in \<open>env_title\<close>.\<close>

theorem short_content_is_terminal_witness:
  "client_Get env_title 10 ''http://example.com'' = Inr page \<and> StatusCode page = 200
   \<and> url_Parse env_title ''http://example.com'' = Inr ''http://example.com''
   \<and> readability_FromReader env_title (Body page) ''http://example.com'' = Inr short_article
   \<and> length (TextContent short_article) < 100
   \<and> ExtractTextFromURL_readability env_title ''http://example.com'' =
       (('''', Some (errors_New ''extract failed: content too short'')),
        [Get 10 ''http://example.com'', UrlParse ''http://example.com'',
         FromReader (Body page), Close])"
proof -
  have h: "client_Get env_title 10 ''http://example.com'' = Inr page" "StatusCode page = 200"
    "url_Parse env_title ''http://example.com'' = Inr ''http://example.com''"
    "readability_FromReader env_title (Body page) ''http://example.com'' = Inr short_article"
    "length (TextContent short_article) < 100"
    by (simp_all add: env_defs)
  from h short_content_is_terminal [OF h] show ?thesis by simp
qed

subsection \<open>Text under a non-content element\<close>

text \<open>
  Claim C2 on the page \<^verbatim>\<open><html><head><title>T</title></head><body><p>B</p></body></html>\<close>.
  \<open>isIgnorable\<close> holds of the \<open>head\<close> element, and the text \<open>T\<close> lies in the subtree under
  it, one level further down, inside \<open>title\<close>. The traversal asks \<open>isIgnorable\<close> about the
  parent of a text node only, so \<open>T\<close> is part of the extracted text.
\<close>

theorem title_text_is_extracted:
  "isIgnorable (Some (Node ElementNode ''head''
      [Node ElementNode ''title'' [Node TextNode ''T'' []]]))
   \<and> html_Parse env_title ''page'' = Inr doc_title
   \<and> extractTextFromHTML env_title ''page'' = ((''T B'', None), [HtmlParse ''page''])"
  by code_simp

subsection \<open>Submitting a URL that is not HTTP\<close>

text \<open>
  A submission of \<open>ftp://example.com\<close>. The handler decodes the body and calls the extractor,
  which issues the GET on that URL; the client refuses the scheme and the reply is 500 with
  the text of that error. Nothing has looked at the scheme before the GET.
\<close>

theorem ftp_url_is_fetched:
  "json_Decode env_ftp (RequestBody post) = Inr \<lparr>URL = ''ftp://example.com''\<rparr>
   \<and> scrapeHandler env_ftp (ExtractTextFromURL_readability env_ftp) post =
       (\<lparr>Header = [(''Content-Type'', ''text/plain; charset=utf-8''),
                   (''X-Content-Type-Options'', ''nosniff'')],
         Status = Some 500,
         Written = [Fprintln ''Scraping failed: unsupported protocol scheme'']\<rparr>,
        [Decode ''body'', Extract ''ftp://example.com'', Get 10 ''ftp://example.com''])"
  by (simp add: scrapeHandler_def ExtractTextFromURL_readability_def env_defs http_defs)

text \<open>
  Claim C3, as amended. For every \<open>POST\<close> submission whose body decodes, whatever the scheme
  of its url, \<open>scrapeHandler\<close> validates nothing: after decoding it calls
  \<open>ExtractTextFromURL\<close>, whose first act is the HTTP GET on that url (with either
  extractor), and when that GET fails the reply is 500 with the plain text
  \<open>Scraping failed:\<close> followed by the error. The code has no jobs, so none is created.
\<close>

theorem submission_fetches_any_url:
  assumes "Method r = ''POST''" and "json_Decode env (RequestBody r) = Inr req"
  shows "prefix [Decode (RequestBody r), Extract (URL req), Get 10 (URL req)]
           (snd (scrapeHandler env (ExtractTextFromURL_readability env) r))
         \<and> prefix [Decode (RequestBody r), Extract (URL req), Get 0 (URL req)]
           (snd (scrapeHandler env (ExtractTextFromURL_dom env) r))
         \<and> (client_Get env 10 (URL req) = Inl err \<longrightarrow>
              fst (scrapeHandler env (ExtractTextFromURL_readability env) r) =
                http_Error new_ResponseWriter (''Scraping failed: '' @ Error err)
                  StatusInternalServerError)
         \<and> (client_Get env 0 (URL req) = Inl err \<longrightarrow>
              fst (scrapeHandler env (ExtractTextFromURL_dom env) r) =
                http_Error new_ResponseWriter (''Scraping failed: '' @ Error err)
                  StatusInternalServerError)"
  using assms
  by (auto simp: scrapeHandler_def ExtractTextFromURL_readability_def ExtractTextFromURL_dom_def
      extractTextFromHTML_def http_Get_def Let_def split: sum.splits option.splits prod.splits)

text \<open>The hypotheses of the theorem hold for the \<open>ftp\<close> submission.\<close>

theorem submission_fetches_any_url_witness:
  "Method post = ''POST''
   \<and> json_Decode env_ftp (RequestBody post) = Inr \<lparr>URL = ''ftp://example.com''\<rparr>
   \<and> client_Get env_ftp 10 ''ftp://example.com'' = Inl (GoError ''unsupported protocol scheme'')
   \<and> client_Get env_ftp 0 ''ftp://example.com'' = Inl (GoError ''unsupported protocol scheme'')
   \<and> prefix [Decode ''body'', Extract ''ftp://example.com'', Get 10 ''ftp://example.com'']
        (snd (scrapeHandler env_ftp (ExtractTextFromURL_readability env_ftp) post))
   \<and> prefix [Decode ''body'', Extract ''ftp://example.com'', Get 0 ''ftp://example.com'']
        (snd (scrapeHandler env_ftp (ExtractTextFromURL_dom env_ftp) post))
   \<and> fst (scrapeHandler env_ftp (ExtractTextFromURL_readability env_ftp) post) =
        http_Error new_ResponseWriter ''Scraping failed: unsupported protocol scheme''
          StatusInternalServerError
   \<and> fst (scrapeHandler env_ftp (ExtractTextFromURL_dom env_ftp) post) =
        http_Error new_ResponseWriter ''Scraping failed: unsupported protocol scheme''
          StatusInternalServerError"
proof -
  have h: "Method post = ''POST''"
    "json_Decode env_ftp (RequestBody post) = Inr \<lparr>URL = ''ftp://example.com''\<rparr>"
    by (simp_all add: env_ftp_def env_of_def post_def)
  have g: "client_Get env_ftp 10 ''ftp://example.com'' = Inl (GoError ''unsupported protocol scheme'')"
    "client_Get env_ftp 0 ''ftp://example.com'' = Inl (GoError ''unsupported protocol scheme'')"
    by (simp_all add: env_ftp_def env_of_def)
  from h g submission_fetches_any_url [OF h, of "GoError ''unsupported protocol scheme''"]
  show ?thesis by (simp add: post_def)
qed

subsection \<open>The reply to a valid submission\<close>

text \<open>
  A valid submission in \<open>env_bare\<close>, where the page holds the text \<open>hello\<close>. The handler
  fetches and parses the page before it replies, and the reply is the JSON object whose one
  field, \<open>content\<close>, is the extracted text.
\<close>

theorem response_carries_extracted_text:
  "scrapeHandler env_bare (ExtractTextFromURL_dom env_bare) post =
     (\<lparr>Header = [(''Content-Type'', ''application/json'')], Status = Some 200,
       Written = [json_Encode \<lparr>Content = ''hello''\<rparr>]\<rparr>,
      [Decode ''body'', Extract ''http://example.com'', Get 0 ''http://example.com'',
       HtmlParse ''page'', Close])"
  by code_simp

text \<open>
  Claim C4, as amended. For every valid submission (a \<open>POST\<close> whose body decodes) whose
  extraction succeeds, the endpoint performs the extraction before it responds: the trace of
  the extractor is part of the handler's trace, and the response is 200 with
  \<open>Content-Type: application/json\<close> and the body \<open>{content: text}\<close>, \<open>text\<close> being the text
  extracted from the submitted url. A \<open>scrapeResponse\<close> has no other field: no job identifier
  and no status.
\<close>

theorem scrapeHandler_success_response:
  assumes "Method r = ''POST''" and "json_Decode env (RequestBody r) = Inr req"
    and "extract (URL req) = ((content, None), tr)"
  shows "scrapeHandler env extract r =
           (\<lparr>Header = [(''Content-Type'', ''application/json'')], Status = Some StatusOK,
             Written = [json_Encode \<lparr>Content = content\<rparr>]\<rparr>,
            [Decode (RequestBody r), Extract (URL req)] @ tr)"
  using assms by (simp add: scrapeHandler_def Encode_def new_ResponseWriter_def)

text \<open>The hypotheses of the theorem hold in \<open>env_bare\<close>.\<close>

theorem scrapeHandler_success_response_witness:
  "Method post = ''POST''
   \<and> json_Decode env_bare (RequestBody post) = Inr example_request
   \<and> ExtractTextFromURL_dom env_bare (URL example_request) =
        ((''hello'', None), [Get 0 ''http://example.com'', HtmlParse ''page'', Close])
   \<and> scrapeHandler env_bare (ExtractTextFromURL_dom env_bare) post =
        (\<lparr>Header = [(''Content-Type'', ''application/json'')], Status = Some StatusOK,
          Written = [json_Encode \<lparr>Content = ''hello''\<rparr>]\<rparr>,
         [Decode (RequestBody post), Extract (URL example_request)]
           @ [Get 0 ''http://example.com'', HtmlParse ''page'', Close])"
proof -
  have h: "Method post = ''POST''"
    "json_Decode env_bare (RequestBody post) = Inr example_request"
    by (simp_all add: env_bare_def env_of_def post_def)
  have e: "ExtractTextFromURL_dom env_bare (URL example_request) =
        ((''hello'', None), [Get 0 ''http://example.com'', HtmlParse ''page'', Close])"
    by code_simp
  from h e
    scrapeHandler_success_response [of post env_bare example_request
      "ExtractTextFromURL_dom env_bare" "''hello''"
      "[Get 0 ''http://example.com'', HtmlParse ''page'', Close]"]
  show ?thesis by simp
qed

subsection \<open>The reply to a failing request\<close>




subsection \<open>A failed fetch\<close>

text \<open>
  A server that answers 404 and one that answers 500. Each extractor returns the same error
  for both, a fixed message, so the error does not tell the status that was received.
\<close>

theorem fetch_error_hides_status:
  "fst (ExtractTextFromURL_readability (env_status 404) ''http://example.com'') =
     ('''', Some (GoError ''failed to fetch the page''))
   \<and> fst (ExtractTextFromURL_readability (env_status 500) ''http://example.com'') =
     ('''', Some (GoError ''failed to fetch the page''))
   \<and> fst (ExtractTextFromURL_dom (env_status 404) ''http://example.com'') =
     ('''', Some (GoError ''failed to fetch page''))
   \<and> fst (ExtractTextFromURL_dom (env_status 500) ''http://example.com'') =
     ('''', Some (GoError ''failed to fetch page''))"
  by (simp add: ExtractTextFromURL_readability_def ExtractTextFromURL_dom_def env_defs http_defs)

text \<open>
  Claim C6, as amended. For every fetch that suffers a transport error or returns a status
  other than 200, \<open>ExtractTextFromURL\<close> (either version) treats it as a failure and returns
  an error with empty content: the transport's own error, or, for a status other than 200,
  the fixed message \<open>failed to fetch the page\<close> (\<open>failed to fetch page\<close> in the traversal
  by hand), which does not carry the HTTP status.
\<close>

theorem fetch_failure_error:
  "(client_Get env 10 u = Inl err \<longrightarrow>
      fst (ExtractTextFromURL_readability env u) = ('''', Some err))
   \<and> (client_Get env 10 u = Inr resp \<and> StatusCode resp \<noteq> 200 \<longrightarrow>
      fst (ExtractTextFromURL_readability env u) =
        ('''', Some (errors_New ''failed to fetch the page'')))
   \<and> (http_Get env u = Inl err \<longrightarrow>
      fst (ExtractTextFromURL_dom env u) = ('''', Some err))
   \<and> (http_Get env u = Inr resp \<and> StatusCode resp \<noteq> 200 \<longrightarrow>
      fst (ExtractTextFromURL_dom env u) = ('''', Some (errors_New ''failed to fetch page'')))"
  by (simp add: ExtractTextFromURL_readability_def ExtractTextFromURL_dom_def)

text \<open>The hypotheses of the theorem hold for a refused scheme and for a 404.\<close>

theorem fetch_failure_error_witness:
  "client_Get env_ftp 10 ''ftp://example.com'' = Inl (GoError ''unsupported protocol scheme'')
   \<and> fst (ExtractTextFromURL_readability env_ftp ''ftp://example.com'') =
        ([], Some (GoError ''unsupported protocol scheme''))
   \<and> http_Get env_ftp ''ftp://example.com'' = Inl (GoError ''unsupported protocol scheme'')
   \<and> fst (ExtractTextFromURL_dom env_ftp ''ftp://example.com'') =
        ([], Some (GoError ''unsupported protocol scheme''))
   \<and> client_Get (env_status 404) 10 ''http://example.com'' =
        Inr \<lparr>StatusCode = 404, Body = ''gone''\<rparr>
   \<and> StatusCode \<lparr>StatusCode = 404, Body = ''gone''\<rparr> \<noteq> 200
   \<and> fst (ExtractTextFromURL_readability (env_status 404) ''http://example.com'') =
        ([], Some (errors_New ''failed to fetch the page''))
   \<and> http_Get (env_status 404) ''http://example.com'' =
        Inr \<lparr>StatusCode = 404, Body = ''gone''\<rparr>
   \<and> fst (ExtractTextFromURL_dom (env_status 404) ''http://example.com'') =
        ([], Some (errors_New ''failed to fetch page''))"
proof -
  have a: "client_Get env_ftp 10 ''ftp://example.com'' = Inl (GoError ''unsupported protocol scheme'')"
    "http_Get env_ftp ''ftp://example.com'' = Inl (GoError ''unsupported protocol scheme'')"
    by (simp_all add: env_ftp_def env_of_def http_Get_def)
  have b: "client_Get (env_status 404) 10 ''http://example.com'' =
        Inr \<lparr>StatusCode = 404, Body = ''gone''\<rparr>"
    "http_Get (env_status 404) ''http://example.com'' = Inr \<lparr>StatusCode = 404, Body = ''gone''\<rparr>"
    by (simp_all add: env_status_def env_of_def http_Get_def)
  from a b
    fetch_failure_error [of env_ftp "''ftp://example.com''"
      "GoError ''unsupported protocol scheme''" "\<lparr>StatusCode = 404, Body = ''gone''\<rparr>"]
    fetch_failure_error [of "env_status 404" "''http://example.com''"
      "GoError ''unsupported protocol scheme''" "\<lparr>StatusCode = 404, Body = ''gone''\<rparr>"]
  show ?thesis by simp
qed

subsection \<open>White space in the extracted text\<close>

text \<open>
  The page \<^verbatim>\<open><p>a  b</p>\<close>, with two spaces inside one text node. The extracted text is
  \<open>a  b\<close>: the two spaces are still there.
\<close>

theorem inner_whitespace_is_kept:
  "html_Parse env_gap ''page'' = Inr doc_gap
   \<and> extractTextFromHTML env_gap ''page'' = ((''a  b'', None), [HtmlParse ''page''])"
  by code_simp

text \<open>
  Claim C7, as amended. For every parsed HTML document the extracted text is the trimmed
  data of the contributing text nodes joined by single spaces. It has no leading and no
  trailing white space; a text node whose data is white space only writes nothing (its
  trimmed data is empty, and \<open>traverse\<close> goes on to its children with the builder
  unchanged); white space inside the data of a text node is kept as it is, so the output
  has consecutive white space wherever a text node has it inside.
\<close>

theorem extracted_text_whitespace:
  assumes "html_Parse env r = Inr doc"
  shows "fst (extractTextFromHTML env r) = (Join (visible_texts doc), None)
         \<and> leading_space (Join (visible_texts doc)) = 0
         \<and> trailing_space (Join (visible_texts doc)) = 0
         \<and> [] \<notin> set (visible_texts doc)
         \<and> (set ws \<subseteq> set White_Space \<longrightarrow>
              traverse parent (Node TextNode (concat ws) cs) b =
                traverse_siblings (Some (Node TextNode (concat ws) cs)) cs b)"
proof -
  have out: "TrimSpace (traverse None doc []) = Join (visible_texts doc)"
    by (rule extract_Join)
  then have "leading_space (Join (visible_texts doc)) = 0"
    "trailing_space (Join (visible_texts doc)) = 0"
    using leading_space_TrimSpace [of "traverse None doc []"]
      trailing_space_TrimSpace [of "traverse None doc []"] by simp_all
  moreover have "[] \<notin> set (visible_texts doc)"
    by (simp add: visible_texts_def texts_of_def)
  moreover from assms out have "fst (extractTextFromHTML env r) = (Join (visible_texts doc), None)"
    by (simp add: extractTextFromHTML_def)
  moreover have "traverse parent (Node TextNode (concat ws) cs) b =
      traverse_siblings (Some (Node TextNode (concat ws) cs)) cs b"
    if "set ws \<subseteq> set White_Space"
    using that by (simp add: TrimSpace_White_Space Let_def)
  ultimately show ?thesis
    by blast
qed

text \<open>The hypotheses of the theorem hold for \<open>doc_gap\<close> and for the data made of a space, a
  no-break space and a line feed.\<close>

theorem extracted_text_whitespace_witness:
  "html_Parse env_gap ''page'' = Inr doc_gap
   \<and> set ['' '', [CHR 0xC2, CHR 0xA0], [CHR 0x0A]] \<subseteq> set White_Space
   \<and> fst (extractTextFromHTML env_gap ''page'') = (Join (visible_texts doc_gap), None)
   \<and> leading_space (Join (visible_texts doc_gap)) = 0
   \<and> trailing_space (Join (visible_texts doc_gap)) = 0
   \<and> [] \<notin> set (visible_texts doc_gap)
   \<and> traverse None (Node TextNode (concat ['' '', [CHR 0xC2, CHR 0xA0], [CHR 0x0A]]) []) ''x'' =
       traverse_siblings
         (Some (Node TextNode (concat ['' '', [CHR 0xC2, CHR 0xA0], [CHR 0x0A]]) [])) [] ''x''"
proof -
  have h: "html_Parse env_gap ''page'' = Inr doc_gap"
    by (simp add: env_defs)
  have ws: "set ['' '', [CHR 0xC2, CHR 0xA0], [CHR 0x0A]] \<subseteq> set White_Space"
    by (simp add: White_Space_def)
  from h ws extracted_text_whitespace [OF h, of "['' '', [CHR 0xC2, CHR 0xA0], [CHR 0x0A]]"
      None "[]" "''x''"]
  show ?thesis by blast
qed

subsection \<open>The two extractors accept the same fetches\<close>

text \<open>
  Claim C8. The two implementations of \<open>ExtractTextFromURL\<close> agree on when a fetch is
  accepted: for every URL, whenever the HTTP GET (\<open>http.Get\<close> in the traversal by hand, the
  client with the timeout of ten seconds in \<open>text.go\<close>) suffers a transport error or returns
  a status other than 200, the function returns an error, and the content it returns is the
  empty string.
\<close>

theorem fetch_acceptance_agrees:
  "((\<exists>err. http_Get env u = Inl err)
      \<or> (\<exists>resp. http_Get env u = Inr resp \<and> StatusCode resp \<noteq> StatusOK)
     \<longrightarrow> (\<exists>err. fst (ExtractTextFromURL_dom env u) = ('''', Some err)))
   \<and> ((\<exists>err. client_Get env 10 u = Inl err)
      \<or> (\<exists>resp. client_Get env 10 u = Inr resp \<and> StatusCode resp \<noteq> StatusOK)
     \<longrightarrow> (\<exists>err. fst (ExtractTextFromURL_readability env u) = ('''', Some err)))"
  by (auto simp: ExtractTextFromURL_readability_def ExtractTextFromURL_dom_def StatusOK_def)

text \<open>The hypotheses of the theorem hold for a refused scheme and for a 404.\<close>

theorem fetch_acceptance_agrees_witness:
  "http_Get env_ftp ''ftp://example.com'' = Inl (GoError ''unsupported protocol scheme'')
   \<and> client_Get env_ftp 10 ''ftp://example.com'' = Inl (GoError ''unsupported protocol scheme'')
   \<and> (\<exists>err. fst (ExtractTextFromURL_dom env_ftp ''ftp://example.com'') = ([], Some err))
   \<and> (\<exists>err. fst (ExtractTextFromURL_readability env_ftp ''ftp://example.com'') =
         ([], Some err))
   \<and> http_Get (env_status 404) ''http://example.com'' =
        Inr \<lparr>StatusCode = 404, Body = ''gone''\<rparr>
   \<and> client_Get (env_status 404) 10 ''http://example.com'' =
        Inr \<lparr>StatusCode = 404, Body = ''gone''\<rparr>
   \<and> StatusCode \<lparr>StatusCode = 404, Body = ''gone''\<rparr> \<noteq> StatusOK
   \<and> (\<exists>err. fst (ExtractTextFromURL_dom (env_status 404) ''http://example.com'') =
         ([], Some err))
   \<and> (\<exists>err. fst (ExtractTextFromURL_readability (env_status 404) ''http://example.com'') =
         ([], Some err))"
proof -
  have a: "http_Get env_ftp ''ftp://example.com'' = Inl (GoError ''unsupported protocol scheme'')"
    "client_Get env_ftp 10 ''ftp://example.com'' = Inl (GoError ''unsupported protocol scheme'')"
    by (simp_all add: env_ftp_def env_of_def http_Get_def)
  have b: "http_Get (env_status 404) ''http://example.com'' =
        Inr \<lparr>StatusCode = 404, Body = ''gone''\<rparr>"
    "client_Get (env_status 404) 10 ''http://example.com'' =
        Inr \<lparr>StatusCode = 404, Body = ''gone''\<rparr>"
    by (simp_all add: env_status_def env_of_def http_Get_def)
  have c: "StatusCode \<lparr>StatusCode = 404, Body = ''gone''\<rparr> \<noteq> StatusOK"
    by (simp add: StatusOK_def)
  from a b c
    fetch_acceptance_agrees [of env_ftp "''ftp://example.com''"]
    fetch_acceptance_agrees [of "env_status 404" "''http://example.com''"]
  show ?thesis by (simp add: StatusOK_def)
qed

subsection \<open>Requests the handler rejects\<close>

text \<open>
  Claim C9. For every request whose method is not \<open>POST\<close>, \<open>scrapeHandler\<close> responds with
  status 405 and makes no call at all; for every \<open>POST\<close> request whose body fails to decode
  as JSON, it responds with status 400 and the decoding is the only call it made. In both
  cases the extractor is not called, for any URL \<open>u\<close>.
\<close>

theorem scrapeHandler_rejects_before_extracting:
  "(Method r \<noteq> ''POST'' \<longrightarrow>
      Status (fst (scrapeHandler env extract r)) = Some StatusMethodNotAllowed
      \<and> snd (scrapeHandler env extract r) = []
      \<and> Extract u \<notin> set (snd (scrapeHandler env extract r)))
   \<and> (Method r = ''POST'' \<and> json_Decode env (RequestBody r) = Inl err \<longrightarrow>
      Status (fst (scrapeHandler env extract r)) = Some StatusBadRequest
      \<and> snd (scrapeHandler env extract r) = [Decode (RequestBody r)]
      \<and> Extract u \<notin> set (snd (scrapeHandler env extract r)))"
  by (simp add: scrapeHandler_def http_Error_def)

text \<open>The hypotheses of the theorem hold for a \<open>GET\<close> request and for a body that is not
  JSON.\<close>

theorem scrapeHandler_rejects_before_extracting_witness:
  "Method \<lparr>Method = ''GET'', RequestBody = []\<rparr> \<noteq> ''POST''
   \<and> Status (fst (scrapeHandler env_bare (ExtractTextFromURL_dom env_bare)
        \<lparr>Method = ''GET'', RequestBody = []\<rparr>)) = Some StatusMethodNotAllowed
   \<and> snd (scrapeHandler env_bare (ExtractTextFromURL_dom env_bare)
        \<lparr>Method = ''GET'', RequestBody = []\<rparr>) = []
   \<and> Method post = ''POST''
   \<and> json_Decode env_bad_json (RequestBody post) = Inl (GoError ''invalid character'')
   \<and> Status (fst (scrapeHandler env_bad_json (ExtractTextFromURL_dom env_bad_json) post)) =
        Some StatusBadRequest
   \<and> snd (scrapeHandler env_bad_json (ExtractTextFromURL_dom env_bad_json) post) =
        [Decode ''body'']
   \<and> Extract ''http://example.com''
        \<notin> set (snd (scrapeHandler env_bad_json (ExtractTextFromURL_dom env_bad_json) post))"
proof -
  have a: "Method \<lparr>Method = ''GET'', RequestBody = []\<rparr> \<noteq> ''POST''"
    by simp
  have b: "Method post = ''POST''"
    "json_Decode env_bad_json (RequestBody post) = Inl (GoError ''invalid character'')"
    by (simp_all add: env_bad_json_def env_of_def post_def)
  from a b
    scrapeHandler_rejects_before_extracting [of "\<lparr>Method = ''GET'', RequestBody = []\<rparr>"
      env_bare "ExtractTextFromURL_dom env_bare" "''http://example.com''"
      "GoError ''invalid character''"]
    scrapeHandler_rejects_before_extracting [of post env_bad_json
      "ExtractTextFromURL_dom env_bad_json" "''http://example.com''"
      "GoError ''invalid character''"]
  show ?thesis by (simp add: post_def)
qed

subsection \<open>Text nodes outside elements\<close>



end
